theory Spec2Isabelle
  imports Main
begin

section \<open>Bounce handlers of listmonk (cmd/bounce.go)\<close>

text \<open>
  A shallow embedding of \<^verbatim>\<open>handleGetBounces\<close>, \<^verbatim>\<open>handleDeleteBounces\<close>,
  \<^verbatim>\<open>handleBounceWebhook\<close> and \<^verbatim>\<open>validateBounceFields\<close> of
  \<^verbatim>\<open>cmd/bounce.go\<close>. Everything a handler reads from the request is a field of
  a request record; everything it does to the outside (adapter calls, Recorder calls,
  database statements, log lines) is appended, in program order, to a list of effects
  that the handler returns next to its HTTP response. Functions the file calls but does
  not define (the provider adapters, the Recorder, \<^verbatim>\<open>subimporter.IsEmail\<close>, the
  \<^verbatim>\<open>reUUID\<close> pattern, \<^verbatim>\<open>json.Unmarshal\<close>, \<^verbatim>\<open>strings.ToLower\<close>, the
  database) are fields of an environment record, so every theorem holds for whatever
  they compute.
\<close>

subsection \<open>Data model\<close>

text \<open>
  \<^verbatim>\<open>time.Time\<close>, by its civil reading in UTC; the handler only calls \<^verbatim>\<open>Year()\<close>.
  The zero value of \<^verbatim>\<open>time.Time\<close>, which \<^verbatim>\<open>json.Unmarshal\<close> leaves in a field the
  payload does not mention, is January 1 of year 1, 00:00:00 UTC (package time: "The zero
  value of type Time is January 1, year 1, 00:00:00.000000000 UTC").
\<close>

record Time =
  Year :: int
  Month :: nat
  Day :: nat
  Nanos :: nat

definition zeroTime :: Time where
  "zeroTime = \<lparr>Year = 1, Month = 1, Day = 1, Nanos = 0\<rparr>"

text \<open>
  Modelled from the spec: the struct \<^verbatim>\<open>models.Bounce\<close> is declared outside
  \<^verbatim>\<open>cmd/bounce.go\<close>. Its fields are those of the Normalized Bounce Record of the
  specification (section 3), under the names the handlers use (\<^verbatim>\<open>Email\<close>,
  \<^verbatim>\<open>SubscriberUUID\<close>, \<^verbatim>\<open>Meta\<close>, \<^verbatim>\<open>CreatedAt\<close>), and the pseudo-field
  \<^verbatim>\<open>Total\<close> that \<^verbatim>\<open>handleGetBounces\<close> reads. \<^verbatim>\<open>Meta\<close> is a
  \<^verbatim>\<open>json.RawMessage\<close>: the raw bytes, empty when the payload has no such field.
\<close>

record Bounce =
  ID :: int
  SubscriberUUID :: string
  Email :: string
  CampaignID :: "int option"
  Source :: string
  Type :: string
  Meta :: string
  CreatedAt :: Time
  Total :: int

text \<open>\<^verbatim>\<open>bouncesWrap\<close> (lines 18 to 24), and the pagination \<^verbatim>\<open>getPagination\<close> returns.\<close>

record bouncesWrap =
  Results :: "Bounce list"
  wrap_Total :: int
  wrap_PerPage :: int
  wrap_Page :: int

record Pagination =
  PerPage :: int
  Page :: int
  Offset :: int
  Limit :: int

text \<open>
  A response is \<^verbatim>\<open>echo.NewHTTPError(code, app.i18n.T(key))\<close>, kept as the status code
  and the key of the message (its translation, and the parameters \<^verbatim>\<open>Ts\<close> splices into
  it, are the i18n package's business), or \<^verbatim>\<open>c.JSON(code, okResp{data})\<close>.
\<close>

datatype okResp = Data_bool bool | Data_wrap bouncesWrap | Data_bounce Bounce

datatype response = HTTPError nat string | JSON nat okResp

text \<open>What a handler does to the outside, in program order.\<close>

datatype effect =
    SES_ProcessSubscription_call string
  | SES_ProcessBounce_call string
  | Sendgrid_ProcessBounce_call string string string
  | Record_call Bounce
  | DeleteBounces_Exec_call "int list"
  | db_Select_call string string "int \<times> int \<times> int \<times> string \<times> int \<times> int"
  | Log_Printf string

subsection \<open>The Validator: validateBounceFields\<close>

text \<open>
  The environment of the webhook handler: the feature flags of \<^verbatim>\<open>app.constants\<close>, the
  adapters and the Recorder of \<^verbatim>\<open>app.bounce\<close>, and the library functions the handler
  calls. An adapter returns \<^verbatim>\<open>Inl err\<close> for a Go error. The Recorder reads and
  changes a store of type \<^typ>\<open>'s\<close>.
\<close>

record 's App =
  BounceSESEnabled :: bool
  BounceSendgridEnabled :: bool
  SES_ProcessSubscription :: "string \<Rightarrow> string option"
  SES_ProcessBounce :: "string \<Rightarrow> string + Bounce"
  Sendgrid_ProcessBounce :: "string \<Rightarrow> string \<Rightarrow> string \<Rightarrow> string + Bounce list"
  Record :: "Bounce \<Rightarrow> 's \<Rightarrow> string option \<times> 's"
  IsEmail :: "string \<Rightarrow> bool"
  reUUID_MatchString :: "string \<Rightarrow> bool"
  json_Unmarshal :: "string \<Rightarrow> Bounce option"
  strings_ToLower :: "string \<Rightarrow> string"

text \<open>\<^verbatim>\<open>validateBounceFields\<close> (lines 237 to 251): \<^verbatim>\<open>None\<close> is Go's \<^verbatim>\<open>nil\<close> error.\<close>

definition validateBounceFields :: "Bounce \<Rightarrow> 's App \<Rightarrow> response option" where
  "validateBounceFields b app =
     (if Email b = '''' \<and> SubscriberUUID b = '''' then
        Some (HTTPError 400 ''globals.messages.invalidData'')
      else if Email b \<noteq> '''' \<and> \<not> IsEmail app (Email b) then
        Some (HTTPError 400 ''globals.messages.invalidEmail'')
      else if SubscriberUUID b \<noteq> '''' \<and> \<not> reUUID_MatchString app (SubscriberUUID b) then
        Some (HTTPError 400 ''globals.messages.invalidUUID'')
      else None)"

subsection \<open>The webhook dispatcher: handleBounceWebhook\<close>

text \<open>
  What the handler reads of the call: \<^verbatim>\<open>c.Param("service")\<close>, the outcome of
  \<^verbatim>\<open>ioutil.ReadAll(c.Request().Body)\<close> (\<^verbatim>\<open>Inl err\<close> when the read fails, else the
  raw bytes) and \<^verbatim>\<open>c.Request().Header.Get\<close>, which is the empty string for a header
  the call does not carry.
\<close>

record Request =
  Param_service :: string
  Body :: "string + string"
  Header_Get :: "string \<Rightarrow> string"

text \<open>
  Lines 153 to 225: the body is read and the \<^verbatim>\<open>switch true\<close> builds the slice
  \<^verbatim>\<open>bounces\<close>, or the handler returns early with an error. The result is
  \<^verbatim>\<open>Inl\<close> of the error response, or \<^verbatim>\<open>Inr\<close> of the slice, next to the effects so
  far. \<^verbatim>\<open>now\<close> is what \<^verbatim>\<open>time.Now()\<close> reads.
\<close>

definition collectBounces :: "'s App \<Rightarrow> Request \<Rightarrow> Time \<Rightarrow> (response + Bounce list) \<times> effect list" where
  "collectBounces app c now =
     (case Body c of
        Inl err \<Rightarrow>
          (Inl (HTTPError 400 ''globals.messages.internalError''),
           [Log_Printf (''error reading ses notification body: '' @ err)])
      | Inr rawReq \<Rightarrow>
          if Param_service c = '''' then
            (case json_Unmarshal app rawReq of
               None \<Rightarrow> (Inl (HTTPError 400 ''globals.messages.invalidData''), [])
             | Some b \<Rightarrow>
                 (case validateBounceFields b app of
                    Some err \<Rightarrow> (Inl err, [])
                  | None \<Rightarrow>
                      (let b1 = b\<lparr>Email := strings_ToLower app (Email b)\<rparr>;
                           b2 = (if length (Meta b1) = 0 then b1\<lparr>Meta := ''{}''\<rparr> else b1);
                           b3 = (if Year (CreatedAt b2) = 0 then b2\<lparr>CreatedAt := now\<rparr> else b2)
                       in (Inr ([] @ [b3]), []))))
          else if Param_service c = ''ses'' \<and> BounceSESEnabled app then
            (let mt = Header_Get c ''X-Amz-Sns-Message-Type'' in
             if mt = ''SubscriptionConfirmation'' \<or> mt = ''UnsubscribeConfirmation'' then
               (case SES_ProcessSubscription app rawReq of
                  Some err \<Rightarrow>
                    (Inl (HTTPError 400 ''globals.messages.invalidData''),
                     [SES_ProcessSubscription_call rawReq,
                      Log_Printf (''error processing SNS (SES) subscription: '' @ err)])
                | None \<Rightarrow> (Inr [], [SES_ProcessSubscription_call rawReq]))
             else if mt = ''Notification'' then
               (case SES_ProcessBounce app rawReq of
                  Inl err \<Rightarrow>
                    (Inl (HTTPError 400 ''globals.messages.invalidData''),
                     [SES_ProcessBounce_call rawReq,
                      Log_Printf (''error processing SES notification: '' @ err)])
                | Inr b \<Rightarrow> (Inr ([] @ [b]), [SES_ProcessBounce_call rawReq]))
             else (Inl (HTTPError 400 ''globals.messages.invalidData''), []))
          else if Param_service c = ''sendgrid'' \<and> BounceSendgridEnabled app then
            (let sig = Header_Get c ''X-Twilio-Email-Event-Webhook-Signature'';
                 ts = Header_Get c ''X-Twilio-Email-Event-Webhook-Timestamp''
             in case Sendgrid_ProcessBounce app sig ts rawReq of
                  Inl err \<Rightarrow>
                    (Inl (HTTPError 400 ''globals.messages.invalidData''),
                     [Sendgrid_ProcessBounce_call sig ts rawReq,
                      Log_Printf (''error processing sendgrid notification: '' @ err)])
                | Inr bs \<Rightarrow> (Inr ([] @ bs), [Sendgrid_ProcessBounce_call sig ts rawReq]))
          else (Inl (HTTPError 400 ''bounces.unknownService''), []))"

text \<open>
  Lines 228 to 232: the loop over \<^verbatim>\<open>bounces\<close>. An error of the Recorder is logged
  and the loop goes on with the next record.
\<close>

fun recordBounces :: "'s App \<Rightarrow> Bounce list \<Rightarrow> 's \<Rightarrow> effect list \<times> 's" where
  "recordBounces app [] s = ([], s)"
| "recordBounces app (b # bs) s =
     (case Record app b s of
        (Some err, s') \<Rightarrow>
          (case recordBounces app bs s' of
             (tr, s'') \<Rightarrow> (Record_call b # Log_Printf (''error recording bounce: '' @ err) # tr, s''))
      | (None, s') \<Rightarrow>
          (case recordBounces app bs s' of (tr, s'') \<Rightarrow> (Record_call b # tr, s'')))"

text \<open>
  The handler (lines 144 to 235): the response, the effects in program order, and the
  Recorder's store after the call.
\<close>

definition handleBounceWebhook :: "'s App \<Rightarrow> Request \<Rightarrow> Time \<Rightarrow> 's \<Rightarrow> response \<times> effect list \<times> 's" where
  "handleBounceWebhook app c now s =
     (case collectBounces app c now of
        (Inl err, tr) \<Rightarrow> (err, tr, s)
      | (Inr bounces, tr) \<Rightarrow>
          (case recordBounces app bounces s of
             (tr', s') \<Rightarrow> (JSON 200 (Data_bool True), tr @ tr', s')))"

text \<open>The records handed to the Recorder, in the order of the calls.\<close>

fun Record_calls :: "effect list \<Rightarrow> Bounce list" where
  "Record_calls [] = []"
| "Record_calls (Record_call b # tr) = b # Record_calls tr"
| "Record_calls (e # tr) = Record_calls tr"

text \<open>
  Modelled from the spec: the signed-webhook adapter \<^verbatim>\<open>app.bounce.Sendgrid.ProcessBounce\<close>
  is defined outside \<^verbatim>\<open>cmd/bounce.go\<close>. By section 4.2 of the specification it
  verifies the signature over timestamp plus raw body with the pre-shared key
  (\<^verbatim>\<open>verify\<close>) before it trusts the payload and fails when the check fails; otherwise
  it returns the bounce events of the payload (\<^verbatim>\<open>events\<close>), in payload order.
\<close>

definition sendgrid_ProcessBounce ::
    "(string \<Rightarrow> string \<Rightarrow> bool) \<Rightarrow> (string \<Rightarrow> string + Bounce list) \<Rightarrow>
     string \<Rightarrow> string \<Rightarrow> string \<Rightarrow> string + Bounce list" where
  "sendgrid_ProcessBounce verify events sig ts rawReq =
     (if verify sig (ts @ rawReq) then events rawReq else Inl ''invalid signature'')"

subsection \<open>Library functions of Go\<close>

text \<open>
  \<^verbatim>\<open>strconv.ParseInt(s, 10, 64)\<close>: an optional sign, then decimal digits only. The
  result is the value and the error. A syntax error gives 0; a value outside
  \<^verbatim>\<open>int64\<close> gives the nearest bound together with a range error.
  \<^verbatim>\<open>strconv.Atoi\<close> is \<^verbatim>\<open>ParseInt(s, 10, 0)\<close>, the same function where
  \<^verbatim>\<open>int\<close> has 64 bits.
\<close>

definition isDigit :: "char \<Rightarrow> bool" where
  "isDigit c = (48 \<le> (of_char c :: nat) \<and> (of_char c :: nat) \<le> 57)"

definition digitVal :: "char \<Rightarrow> nat" where
  "digitVal c = of_char c - 48"

definition strconv_ParseInt :: "string \<Rightarrow> int \<times> string option" where
  "strconv_ParseInt s =
     (if s = '''' then (0, Some ''invalid syntax'')
      else
        (let neg = (hd s = CHR ''-'');
             ds = (if hd s = CHR ''+'' \<or> hd s = CHR ''-'' then tl s else s)
         in if ds = '''' \<or> \<not> list_all isDigit ds then (0, Some ''invalid syntax'')
            else
              (let un = foldl (\<lambda>n c. 10 * n + digitVal c) 0 ds in
               if \<not> neg \<and> un \<ge> 2 ^ 63 then (2 ^ 63 - 1, Some ''value out of range'')
               else if neg \<and> un > 2 ^ 63 then (- (2 ^ 63), Some ''value out of range'')
               else (if neg then - int un else int un, None))))"

definition strconv_Atoi :: "string \<Rightarrow> int \<times> string option" where
  "strconv_Atoi s = strconv_ParseInt s"

text \<open>
  \<^verbatim>\<open>strconv.ParseBool\<close>: the twelve accepted spellings; anything else is an error,
  with \<^verbatim>\<open>false\<close>.
\<close>

definition strconv_ParseBool :: "string \<Rightarrow> bool \<times> string option" where
  "strconv_ParseBool str =
     (if str \<in> set [''1'', ''t'', ''T'', ''TRUE'', ''true'', ''True''] then (True, None)
      else if str \<in> set [''0'', ''f'', ''F'', ''FALSE'', ''false'', ''False''] then (False, None)
      else (False, Some ''invalid syntax''))"

subsection \<open>Deletion: handleDeleteBounces\<close>

text \<open>
  The call: \<^verbatim>\<open>c.Param("id")\<close>, \<^verbatim>\<open>c.QueryParam("all")\<close> and the repeated query
  parameter \<^verbatim>\<open>c.Request().URL.Query()["id"]\<close>. The environment: the helper
  \<^verbatim>\<open>parseStringIDs\<close> and the prepared statement \<^verbatim>\<open>app.queries.DeleteBounces\<close>,
  whose \<^verbatim>\<open>Exec\<close> may fail.
\<close>

record DeleteRequest =
  Param_id :: string
  QueryParam_all :: string
  Query_id :: "string list"

record DeleteEnv =
  parseStringIDs_of :: "string list \<Rightarrow> string + int list"
  DeleteBounces_Exec :: "int list \<Rightarrow> string option"

text \<open>Lines 104 to 131: the id array the statement is run with, or the early error.\<close>

definition deleteIDs :: "DeleteEnv \<Rightarrow> DeleteRequest \<Rightarrow> response + int list" where
  "deleteIDs env c =
     (let pID = Param_id c;
          all = fst (strconv_ParseBool (QueryParam_all c));
          IDs = []
      in if pID \<noteq> '''' then
           (let id = fst (strconv_ParseInt pID) in
            if id < 1 then Inl (HTTPError 400 ''globals.messages.invalidID'')
            else Inr (IDs @ [id]))
         else if \<not> all then
           (case parseStringIDs_of env (Query_id c) of
              Inl err \<Rightarrow> Inl (HTTPError 400 ''globals.messages.invalidID'')
            | Inr i \<Rightarrow>
                if length i = 0 then Inl (HTTPError 400 ''globals.messages.invalidID'')
                else Inr i)
         else Inr IDs)"

text \<open>The handler (lines 103 to 141): the early error, or the statement run on the id array.\<close>

definition handleDeleteBounces :: "DeleteEnv \<Rightarrow> DeleteRequest \<Rightarrow> response \<times> effect list" where
  "handleDeleteBounces env c =
     (case deleteIDs env c of
        Inl err \<Rightarrow> (err, [])
      | Inr IDs \<Rightarrow>
          (case DeleteBounces_Exec env IDs of
             Some err \<Rightarrow>
               (HTTPError 500 ''globals.messages.errorDeleting'',
                [DeleteBounces_Exec_call IDs, Log_Printf (''error deleting bounces: '' @ err)])
           | None \<Rightarrow> (JSON 200 (Data_bool True), [DeleteBounces_Exec_call IDs])))"

text \<open>
  Modelled from the spec: \<^verbatim>\<open>parseStringIDs\<close> is defined outside \<^verbatim>\<open>cmd/bounce.go\<close>.
  By section 4.5 of the specification the explicit ids fail when one of them is
  unparseable or non-positive; otherwise they are the id set, in the order given.
\<close>

fun parseStringIDs :: "string list \<Rightarrow> string + int list" where
  "parseStringIDs [] = Inr []"
| "parseStringIDs (v # vs) =
     (case strconv_ParseInt v of
        (i, Some err) \<Rightarrow> Inl err
      | (i, None) \<Rightarrow>
          if i < 1 then Inl ''not a valid ID''
          else (case parseStringIDs vs of Inl err \<Rightarrow> Inl err | Inr vals \<Rightarrow> Inr (i # vals)))"

subsection \<open>Listing: handleGetBounces\<close>

text \<open>
  The call: the path and query parameters, and the pagination that
  \<^verbatim>\<open>getPagination(c.QueryParams(), 20, 50)\<close> returns. The environment: the allow-list
  \<^verbatim>\<open>bounceQuerySortFields\<close> and the constants \<^verbatim>\<open>sortAsc\<close> and \<^verbatim>\<open>sortDesc\<close>,
  all declared outside \<^verbatim>\<open>cmd/bounce.go\<close>, and \<^verbatim>\<open>db.Select\<close> on the statement
  \<^verbatim>\<open>fmt.Sprintf(app.queries.QueryBounces, orderBy, order)\<close>, given by the two values
  spliced into it, with the statement's arguments.
\<close>

record GetRequest =
  get_Param_id :: string
  QueryParam_campaign_id :: string
  FormValue_source :: string
  FormValue_order_by :: string
  FormValue_order :: string
  pg :: Pagination

record QueryEnv =
  bounceQuerySortFields :: "string list"
  sortAsc :: string
  sortDesc :: string
  db_Select :: "string \<Rightarrow> string \<Rightarrow> int \<times> int \<times> int \<times> string \<times> int \<times> int \<Rightarrow> string + Bounce list"

text \<open>
  Modelled from the spec: \<^verbatim>\<open>strSliceContains\<close> is defined outside
  \<^verbatim>\<open>cmd/bounce.go\<close>. By section 4.4 of the specification the requested field is kept
  when it is in the allow-list: the helper says whether the string is an element of the
  slice.
\<close>

fun strSliceContains :: "string \<Rightarrow> string list \<Rightarrow> bool" where
  "strSliceContains str [] = False"
| "strSliceContains str (s # sl) = (if s = str then True else strSliceContains str sl)"

text \<open>The handler (lines 27 to 76).\<close>

definition handleGetBounces :: "QueryEnv \<Rightarrow> GetRequest \<Rightarrow> response \<times> effect list" where
  "handleGetBounces env c =
     (let id = fst (strconv_Atoi (get_Param_id c));
          campID = fst (strconv_Atoi (QueryParam_campaign_id c));
          source = FormValue_source c;
          orderBy = FormValue_order_by c;
          order = FormValue_order c;
          single = (id > 0);
          orderBy = (if \<not> strSliceContains orderBy (bounceQuerySortFields env)
                     then ''created_at'' else orderBy);
          order = (if order \<noteq> sortAsc env \<and> order \<noteq> sortDesc env then sortDesc env else order);
          args = (id, campID, 0, source, Offset (pg c), Limit (pg c))
      in case db_Select env orderBy order args of
           Inl err \<Rightarrow>
             (HTTPError 500 ''globals.messages.errorFetching'',
              [db_Select_call orderBy order args, Log_Printf (''error fetching bounces: '' @ err)])
         | Inr [] \<Rightarrow>
             (JSON 200 (Data_wrap \<lparr>Results = [], wrap_Total = 0, wrap_PerPage = 0, wrap_Page = 0\<rparr>),
              [db_Select_call orderBy order args])
         | Inr (r0 # rs) \<Rightarrow>
             if single then (JSON 200 (Data_bounce r0), [db_Select_call orderBy order args])
             else
               (JSON 200 (Data_wrap \<lparr>Results = r0 # rs, wrap_Total = Total r0,
                                      wrap_PerPage = PerPage (pg c), wrap_Page = Page (pg c)\<rparr>),
                [db_Select_call orderBy order args]))"

subsection \<open>A concrete deployment and concrete calls\<close>

text \<open>
  The handlers are evaluated below at concrete calls. That needs values for the
  functions the environment stands for; the theorems themselves hold for every
  environment.

  Modelled from the spec: \<^verbatim>\<open>subimporter.IsEmail\<close> is defined outside
  \<^verbatim>\<open>cmd/bounce.go\<close>. The specification (section 4.3) asks for a syntactically valid
  email address; this check accepts a string with exactly one at-sign, between a
  non-empty local part and a non-empty domain, and no space.
\<close>

definition IsEmail_spec :: "string \<Rightarrow> bool" where
  "IsEmail_spec s =
     (count_list s CHR ''@'' = 1 \<and> hd s \<noteq> CHR ''@'' \<and> last s \<noteq> CHR ''@'' \<and> CHR '' '' \<notin> set s)"

text \<open>
  Modelled from the spec: the pattern \<^verbatim>\<open>reUUID\<close> is declared outside
  \<^verbatim>\<open>cmd/bounce.go\<close>. The specification (section 4.3) asks for the canonical UUID
  textual pattern: groups of 8, 4, 4, 4 and 12 lowercase hexadecimal digits, separated
  by hyphens.
\<close>

definition isHexLower :: "char \<Rightarrow> bool" where
  "isHexLower c = (c \<in> set ''0123456789abcdef'')"

fun uuidGroups :: "nat list \<Rightarrow> string \<Rightarrow> bool" where
  "uuidGroups [] s = (s = [])"
| "uuidGroups [n] s = (length s = n \<and> list_all isHexLower s)"
| "uuidGroups (n # m # ns) s =
     (length (take n s) = n \<and> list_all isHexLower (take n s) \<and>
      (case drop n s of [] \<Rightarrow> False | c # rest \<Rightarrow> c = CHR ''-'' \<and> uuidGroups (m # ns) rest))"

definition reUUID_spec :: "string \<Rightarrow> bool" where
  "reUUID_spec s = uuidGroups [8, 4, 4, 4, 12] s"

text \<open>\<^verbatim>\<open>strings.ToLower\<close> on ASCII text: the letters A to Z are mapped to a to z.\<close>

definition ToLower_ascii :: "string \<Rightarrow> string" where
  "ToLower_ascii s =
     map (\<lambda>c. case map_of (zip ''ABCDEFGHIJKLMNOPQRSTUVWXYZ'' ''abcdefghijklmnopqrstuvwxyz'') c of
                 Some d \<Rightarrow> d | None \<Rightarrow> c) s"

text \<open>
  Four native payloads and the structs \<^verbatim>\<open>json.Unmarshal\<close> fills from them: a field
  the payload does not mention keeps its zero value. The keys are illustrative: the
  struct tags are declared with \<^verbatim>\<open>models.Bounce\<close>, outside \<^verbatim>\<open>cmd/bounce.go\<close>.
\<close>

definition payload_email :: string where
  \<open>payload_email = ''{"email":"User@Example.com","source":"api","type":"hard"}''\<close>

definition bounce_email :: Bounce where
  "bounce_email =
     \<lparr>ID = 0, SubscriberUUID = '''', Email = ''User@Example.com'', CampaignID = None,
      Source = ''api'', Type = ''hard'', Meta = '''', CreatedAt = zeroTime, Total = 0\<rparr>"

definition payload_both :: string where
  \<open>payload_both = ''{"email":"user@example.com","subscriber_uuid":"123e4567-e89b-42d3-a456-426614174000"}''\<close>

definition bounce_both :: Bounce where
  "bounce_both =
     \<lparr>ID = 0, SubscriberUUID = ''123e4567-e89b-42d3-a456-426614174000'',
      Email = ''user@example.com'', CampaignID = None,
      Source = '''', Type = '''', Meta = '''', CreatedAt = zeroTime, Total = 0\<rparr>"

definition payload_year0 :: string where
  \<open>payload_year0 = ''{"subscriber_uuid":"123e4567-e89b-42d3-a456-426614174000","campaign_id":7,"source":"api","type":"soft","meta":{"k":1},"created_at":"0000-06-01T00:00:00Z"}''\<close>

definition bounce_year0 :: Bounce where
  \<open>bounce_year0 =
     \<lparr>ID = 0, SubscriberUUID = ''123e4567-e89b-42d3-a456-426614174000'', Email = '''',
      CampaignID = Some 7, Source = ''api'', Type = ''soft'', Meta = ''{"k":1}'',
      CreatedAt = \<lparr>Year = 0, Month = 6, Day = 1, Nanos = 0\<rparr>, Total = 0\<rparr>\<close>

definition payload_empty :: string where
  \<open>payload_empty = ''{"type":"hard"}''\<close>

definition bounce_empty :: Bounce where
  "bounce_empty =
     \<lparr>ID = 0, SubscriberUUID = '''', Email = '''', CampaignID = None,
      Source = '''', Type = ''hard'', Meta = '''', CreatedAt = zeroTime, Total = 0\<rparr>"

definition demo_Unmarshal :: "string \<Rightarrow> Bounce option" where
  "demo_Unmarshal rawReq =
     map_of [(payload_email, bounce_email), (payload_both, bounce_both),
             (payload_year0, bounce_year0), (payload_empty, bounce_empty)] rawReq"

text \<open>Provider records: what the adapters of the deployment return.\<close>

definition provider_bounce :: "string \<Rightarrow> string \<Rightarrow> Bounce" where
  "provider_bounce src addr =
     \<lparr>ID = 0, SubscriberUUID = '''', Email = addr, CampaignID = None, Source = src,
      Type = ''hard'', Meta = ''{}'',
      CreatedAt = \<lparr>Year = 2021, Month = 8, Day = 14, Nanos = 0\<rparr>, Total = 0\<rparr>"

definition demo_verify :: "string \<Rightarrow> string \<Rightarrow> bool" where
  "demo_verify sig signed = (sig = rev signed)"

definition demo_events :: "string \<Rightarrow> string + Bounce list" where
  "demo_events rawReq =
     (if rawReq = ''3 events'' then
        Inr [provider_bounce ''sendgrid'' ''a@example.com'',
             provider_bounce ''sendgrid'' ''fail@example.com'',
             provider_bounce ''sendgrid'' ''c@example.com'']
      else Inl ''error unmarshalling Sendgrid notification'')"

text \<open>
  The deployment: both providers enabled, and a Recorder that appends the record to the
  store, but fails on the address \<^verbatim>\<open>fail@example.com\<close>.
\<close>

definition demo_app :: "Bounce list App" where
  "demo_app =
     \<lparr>BounceSESEnabled = True, BounceSendgridEnabled = True,
      SES_ProcessSubscription = (\<lambda>rawReq. if rawReq = ''confirm'' then None else Some ''no SubscribeURL''),
      SES_ProcessBounce = (\<lambda>rawReq. if rawReq = ''notification'' then Inr (provider_bounce ''ses'' ''b@example.com'')
                                     else Inl ''malformed envelope''),
      Sendgrid_ProcessBounce = sendgrid_ProcessBounce demo_verify demo_events,
      Record = (\<lambda>b s. if Email b = ''fail@example.com'' then (Some ''no such subscriber'', s) else (None, s @ [b])),
      IsEmail = IsEmail_spec, reUUID_MatchString = reUUID_spec,
      json_Unmarshal = demo_Unmarshal, strings_ToLower = ToLower_ascii\<rparr>"

definition now0 :: Time where
  "now0 = \<lparr>Year = 2021, Month = 8, Day = 15, Nanos = 1\<rparr>"

definition call :: "string \<Rightarrow> string \<Rightarrow> (string \<times> string) list \<Rightarrow> Request" where
  "call service rawReq headers =
     \<lparr>Param_service = service, Body = Inr rawReq,
      Header_Get = (\<lambda>k. case map_of headers k of Some v \<Rightarrow> v | None \<Rightarrow> '''')\<rparr>"

text \<open>
  Environments for deletion and listing. The allow-list and the two direction constants
  are declared outside \<^verbatim>\<open>cmd/bounce.go\<close>; the values here are examples.
\<close>

definition demo_DeleteEnv :: DeleteEnv where
  "demo_DeleteEnv = \<lparr>parseStringIDs_of = parseStringIDs, DeleteBounces_Exec = (\<lambda>IDs. None)\<rparr>"

definition demo_QueryEnv :: QueryEnv where
  "demo_QueryEnv =
     \<lparr>bounceQuerySortFields = [''email'', ''campaign_name'', ''source'', ''created_at''],
      sortAsc = ''asc'', sortDesc = ''desc'',
      db_Select = (\<lambda>orderBy order args. Inr [])\<rparr>"

definition list_call :: "string \<Rightarrow> string \<Rightarrow> GetRequest" where
  "list_call orderBy order =
     \<lparr>get_Param_id = '''', QueryParam_campaign_id = '''', FormValue_source = '''',
      FormValue_order_by = orderBy, FormValue_order = order,
      pg = \<lparr>PerPage = 20, Page = 1, Offset = 0, Limit = 20\<rparr>\<rparr>"

definition sendgrid_call :: "string \<Rightarrow> Request" where
  "sendgrid_call sig =
     call ''sendgrid'' ''3 events''
       [(''X-Twilio-Email-Event-Webhook-Signature'', sig),
        (''X-Twilio-Email-Event-Webhook-Timestamp'', ''24'')]"

definition sendgrid_events :: "Bounce list" where
  "sendgrid_events =
     [provider_bounce ''sendgrid'' ''a@example.com'',
      provider_bounce ''sendgrid'' ''fail@example.com'',
      provider_bounce ''sendgrid'' ''c@example.com'']"

section \<open>Properties\<close>

subsection \<open>Helper lemmas\<close>

lemma validate_None_iff:
  "validateBounceFields b app = None \<longleftrightarrow>
     (Email b \<noteq> '''' \<or> SubscriberUUID b \<noteq> '''') \<and>
     (Email b = '''' \<or> IsEmail app (Email b)) \<and>
     (SubscriberUUID b = '''' \<or> reUUID_MatchString app (SubscriberUUID b))"
  by (auto simp: validateBounceFields_def)

lemma Record_calls_append: "Record_calls (tr @ tr') = Record_calls tr @ Record_calls tr'"
  by (induction tr rule: Record_calls.induct) simp_all

lemma Record_calls_recordBounces_aux:
  "recordBounces app bs s = (tr, s') \<Longrightarrow> Record_calls tr = bs"
proof (induction bs arbitrary: s tr s')
  case Nil
  then show ?case by simp
next
  case (Cons b bs)
  obtain e s1 where r: "Record app b s = (e, s1)" by (cases "Record app b s")
  obtain tr1 s2 where rec: "recordBounces app bs s1 = (tr1, s2)"
    by (cases "recordBounces app bs s1")
  have "Record_calls tr1 = bs" using Cons.IH [OF rec] .
  then show ?case using Cons.prems r rec by (cases e) auto
qed

lemma Record_calls_recordBounces: "Record_calls (fst (recordBounces app bs s)) = bs"
  using Record_calls_recordBounces_aux [of app bs s] by (cases "recordBounces app bs s") simp

lemma Record_calls_collectBounces: "Record_calls (snd (collectBounces app c now)) = []"
  by (auto simp: collectBounces_def Let_def split: sum.splits option.splits)

lemma handle_Inl:
  "collectBounces app c now = (Inl err, tr) \<Longrightarrow> handleBounceWebhook app c now s = (err, tr, s)"
  by (simp add: handleBounceWebhook_def)

lemma handle_Inr:
  "collectBounces app c now = (Inr bs, tr) \<Longrightarrow>
   handleBounceWebhook app c now s =
     (JSON 200 (Data_bool True), tr @ fst (recordBounces app bs s), snd (recordBounces app bs s))"
  by (simp add: handleBounceWebhook_def split: prod.splits)

lemma handle_Inr_calls:
  assumes "collectBounces app c now = (Inr bs, tr)"
  shows "fst (handleBounceWebhook app c now s) = JSON 200 (Data_bool True)"
    and "Record_calls (fst (snd (handleBounceWebhook app c now s))) = bs"
proof -
  have "Record_calls tr = []"
    using Record_calls_collectBounces [of app c now] assms by simp
  then show "Record_calls (fst (snd (handleBounceWebhook app c now s))) = bs"
    using handle_Inr [OF assms, of s] by (simp add: Record_calls_append Record_calls_recordBounces)
  show "fst (handleBounceWebhook app c now s) = JSON 200 (Data_bool True)"
    using handle_Inr [OF assms, of s] by simp
qed

lemma native_collect:
  assumes "Body c = Inr rawReq" and "Param_service c = ''''"
    and "json_Unmarshal app rawReq = Some b" and "validateBounceFields b app = None"
  shows "collectBounces app c now =
     (Inr [b\<lparr>Email := strings_ToLower app (Email b),
             Meta := (if length (Meta b) = 0 then ''{}'' else Meta b),
             CreatedAt := (if Year (CreatedAt b) = 0 then now else CreatedAt b)\<rparr>], [])"
  using assms by (simp add: collectBounces_def Let_def)

lemma native_recorded:
  assumes "Body c = Inr rawReq" and "Param_service c = ''''"
    and "json_Unmarshal app rawReq = Some b" and "validateBounceFields b app = None"
  shows "Record_calls (fst (snd (handleBounceWebhook app c now s))) =
     [b\<lparr>Email := strings_ToLower app (Email b),
        Meta := (if length (Meta b) = 0 then ''{}'' else Meta b),
        CreatedAt := (if Year (CreatedAt b) = 0 then now else CreatedAt b)\<rparr>]"
  using handle_Inr_calls(2) [OF native_collect [OF assms]] .

lemma ParseInt_syntax_zero:
  "snd (strconv_ParseInt s) = Some ''invalid syntax'' \<Longrightarrow> fst (strconv_ParseInt s) = 0"
  by (auto simp: strconv_ParseInt_def Let_def split: if_splits)

lemma parseStringIDs_rejects:
  "\<exists>v \<in> set vs. snd (strconv_ParseInt v) \<noteq> None \<or> fst (strconv_ParseInt v) < 1 \<Longrightarrow>
   \<exists>err. parseStringIDs vs = Inl err"
proof (induction vs)
  case Nil
  then show ?case by simp
next
  case (Cons v vs)
  obtain i e where p: "strconv_ParseInt v = (i, e)" by (cases "strconv_ParseInt v")
  show ?case
  proof (cases "e \<noteq> None \<or> i < 1")
    case True
    then show ?thesis using p by (cases e) auto
  next
    case False
    then have "\<exists>v \<in> set vs. snd (strconv_ParseInt v) \<noteq> None \<or> fst (strconv_ParseInt v) < 1"
      using Cons.prems p by auto
    then obtain err where "parseStringIDs vs = Inl err" using Cons.IH by blast
    then show ?thesis using p False by (cases e) auto
  qed
qed

lemma handleDelete_Inl:
  "deleteIDs env c = Inl err \<Longrightarrow> handleDeleteBounces env c = (err, [])"
  by (simp add: handleDeleteBounces_def)

lemma handleDelete_Inr:
  "deleteIDs env c = Inr IDs \<Longrightarrow>
   take 1 (snd (handleDeleteBounces env c)) = [DeleteBounces_Exec_call IDs]"
  by (simp add: handleDeleteBounces_def split: option.splits)

lemma ParseInt_abc: "strconv_ParseInt ''abc'' = (0, Some ''invalid syntax'')"
  by (simp add: strconv_ParseInt_def isDigit_def)

lemma ParseInt_0: "strconv_ParseInt ''0'' = (0, None)"
  by (simp add: strconv_ParseInt_def isDigit_def digitVal_def)

lemma ParseInt_minus_3: "strconv_ParseInt ''-3'' = (- 3, None)"
  by (simp add: strconv_ParseInt_def isDigit_def digitVal_def)

lemma ParseInt_7: "strconv_ParseInt ''7'' = (7, None)"
  by (simp add: strconv_ParseInt_def isDigit_def digitVal_def)

lemma ParseInt_12: "strconv_ParseInt ''12'' = (12, None)"
  by (simp add: strconv_ParseInt_def isDigit_def digitVal_def)

lemma ParseInt_out_of_range:
  "strconv_ParseInt ''99999999999999999999'' = (9223372036854775807, Some ''value out of range'')"
  by (simp add: strconv_ParseInt_def isDigit_def digitVal_def)

lemma strSliceContains_set: "strSliceContains str sl = (str \<in> set sl)"
  by (induction sl) auto

lemma handleGet_select:
  "take 1 (snd (handleGetBounces env c)) =
     [db_Select_call
        (if strSliceContains (FormValue_order_by c) (bounceQuerySortFields env)
         then FormValue_order_by c else ''created_at'')
        (if FormValue_order c \<noteq> sortAsc env \<and> FormValue_order c \<noteq> sortDesc env
         then sortDesc env else FormValue_order c)
        (fst (strconv_Atoi (get_Param_id c)), fst (strconv_Atoi (QueryParam_campaign_id c)), 0,
         FormValue_source c, Offset (pg c), Limit (pg c))]"
  unfolding handleGetBounces_def Let_def
  by (cases "db_Select env
        (if \<not> strSliceContains (FormValue_order_by c) (bounceQuerySortFields env)
         then ''created_at'' else FormValue_order_by c)
        (if FormValue_order c \<noteq> sortAsc env \<and> FormValue_order c \<noteq> sortDesc env
         then sortDesc env else FormValue_order c)
        (fst (strconv_Atoi (get_Param_id c)), fst (strconv_Atoi (QueryParam_campaign_id c)), 0,
         FormValue_source c, Offset (pg c), Limit (pg c))")
     (simp_all split: list.splits)

subsection \<open>The Validator\<close>

text \<open>
  C1, as the claim states it, fails: the Validator accepts a record in which both
  \<^verbatim>\<open>email\<close> and \<^verbatim>\<open>subscriberUUID\<close> are non-empty, when both are well-formed.
\<close>

theorem validator_accepts_both_counterexample:
  "validateBounceFields bounce_both demo_app = None \<and>
   Email bounce_both \<noteq> '''' \<and> SubscriberUUID bounce_both \<noteq> ''''"
  by (simp add: validateBounceFields_def bounce_both_def demo_app_def IsEmail_spec_def
      reUUID_spec_def isHexLower_def)

text \<open>
  C1, amended: the Validator accepts a record only if at least one of \<^verbatim>\<open>email\<close> and
  \<^verbatim>\<open>subscriberUUID\<close> is non-empty; a record in which both are non-empty is accepted
  exactly when the email is a valid address and the UUID matches the pattern.
\<close>

theorem validator_accepts_at_least_one:
  "(validateBounceFields b app = None \<longrightarrow> Email b \<noteq> '''' \<or> SubscriberUUID b \<noteq> '''') \<and>
   (Email b \<noteq> '''' \<and> SubscriberUUID b \<noteq> '''' \<longrightarrow>
      (validateBounceFields b app = None) =
      (IsEmail app (Email b) \<and> reUUID_MatchString app (SubscriberUUID b)))"
  by (auto simp: validate_None_iff)

theorem validator_accepts_at_least_one_witness:
  "validateBounceFields bounce_both demo_app = None \<and>
   Email bounce_both \<noteq> '''' \<and> SubscriberUUID bounce_both \<noteq> '''' \<and>
   IsEmail demo_app (Email bounce_both) \<and>
   reUUID_MatchString demo_app (SubscriberUUID bounce_both)"
  using validator_accepts_at_least_one [of bounce_both demo_app]
  by (simp add: bounce_both_def demo_app_def IsEmail_spec_def reUUID_spec_def isHexLower_def)

text \<open>
  C7: the Validator applies its three rules in order. It fails with the invalid-data
  error when both fields are empty; otherwise with the invalid-email error when the
  email is non-empty and not a valid address; otherwise with the invalid-UUID error when
  the UUID is non-empty and does not match the pattern; otherwise it returns no error.
  It is a function of the two fields and of the two checks alone: no other field of the
  record and no other part of the application changes its result.
\<close>

theorem validator_rules_in_order:
  "(Email b = '''' \<and> SubscriberUUID b = '''' \<longrightarrow>
      validateBounceFields b app = Some (HTTPError 400 ''globals.messages.invalidData'')) \<and>
   (Email b \<noteq> '''' \<and> \<not> IsEmail app (Email b) \<longrightarrow>
      validateBounceFields b app = Some (HTTPError 400 ''globals.messages.invalidEmail'')) \<and>
   ((Email b = '''' \<or> IsEmail app (Email b)) \<and>
    SubscriberUUID b \<noteq> '''' \<and> \<not> reUUID_MatchString app (SubscriberUUID b) \<longrightarrow>
      validateBounceFields b app = Some (HTTPError 400 ''globals.messages.invalidUUID'')) \<and>
   ((Email b \<noteq> '''' \<or> SubscriberUUID b \<noteq> '''') \<and>
    (Email b \<noteq> '''' \<longrightarrow> IsEmail app (Email b)) \<and>
    (SubscriberUUID b \<noteq> '''' \<longrightarrow> reUUID_MatchString app (SubscriberUUID b)) \<longrightarrow>
      validateBounceFields b app = None) \<and>
   (Email b' = Email b \<and> SubscriberUUID b' = SubscriberUUID b \<and>
    IsEmail app' = IsEmail app \<and> reUUID_MatchString app' = reUUID_MatchString app \<longrightarrow>
      validateBounceFields b' app' = validateBounceFields b app)"
  by (auto simp: validateBounceFields_def)

theorem validator_rules_in_order_witness:
  "validateBounceFields bounce_empty demo_app =
     Some (HTTPError 400 ''globals.messages.invalidData'') \<and>
   validateBounceFields (bounce_empty\<lparr>Email := ''no at-sign''\<rparr>) demo_app =
     Some (HTTPError 400 ''globals.messages.invalidEmail'') \<and>
   validateBounceFields (bounce_email\<lparr>SubscriberUUID := ''123e4567''\<rparr>) demo_app =
     Some (HTTPError 400 ''globals.messages.invalidUUID'') \<and>
   validateBounceFields bounce_email demo_app = None \<and>
   validateBounceFields (bounce_email\<lparr>Type := ''soft''\<rparr>) (demo_app\<lparr>BounceSESEnabled := False\<rparr>) =
     validateBounceFields bounce_email demo_app"
  using validator_rules_in_order [of bounce_empty demo_app bounce_empty demo_app]
    validator_rules_in_order [of "bounce_empty\<lparr>Email := ''no at-sign''\<rparr>" demo_app
      bounce_empty demo_app]
    validator_rules_in_order [of "bounce_email\<lparr>SubscriberUUID := ''123e4567''\<rparr>" demo_app
      bounce_empty demo_app]
    validator_rules_in_order [of bounce_email demo_app "bounce_email\<lparr>Type := ''soft''\<rparr>"
      "demo_app\<lparr>BounceSESEnabled := False\<rparr>"]
  by (simp add: bounce_empty_def bounce_email_def demo_app_def IsEmail_spec_def reUUID_spec_def
      isHexLower_def)

subsection \<open>The webhook dispatcher\<close>

text \<open>
  C2: when the first part of the handler yields a list of records (parsing and
  authentication succeeded), the Recorder is called once per record, in list order,
  whatever each call returns, and the response is the success response.
\<close>

theorem recorder_called_once_per_record:
  "collectBounces app c now = (Inr bs, tr) \<Longrightarrow>
     fst (handleBounceWebhook app c now s) = JSON 200 (Data_bool True) \<and>
     Record_calls (fst (snd (handleBounceWebhook app c now s))) = bs"
  using handle_Inr_calls [of app c now bs tr s] by simp

text \<open>
  At a signed call with three events the Recorder fails on the second record; it is
  still called on all three, in order, and the call succeeds.
\<close>

theorem recorder_called_once_per_record_witness:
  "collectBounces demo_app (sendgrid_call ''stneve 342'') now0 =
     (Inr sendgrid_events, [Sendgrid_ProcessBounce_call ''stneve 342'' ''24'' ''3 events'']) \<and>
   fst (Record demo_app (provider_bounce ''sendgrid'' ''fail@example.com'') []) =
     Some ''no such subscriber'' \<and>
   fst (handleBounceWebhook demo_app (sendgrid_call ''stneve 342'') now0 []) =
     JSON 200 (Data_bool True) \<and>
   Record_calls (fst (snd (handleBounceWebhook demo_app (sendgrid_call ''stneve 342'') now0 []))) =
     sendgrid_events"
proof -
  have h: "collectBounces demo_app (sendgrid_call ''stneve 342'') now0 =
     (Inr sendgrid_events, [Sendgrid_ProcessBounce_call ''stneve 342'' ''24'' ''3 events''])"
    by (simp add: collectBounces_def demo_app_def sendgrid_call_def call_def
        sendgrid_ProcessBounce_def demo_verify_def demo_events_def sendgrid_events_def)
  have r: "fst (Record demo_app (provider_bounce ''sendgrid'' ''fail@example.com'') []) =
     Some ''no such subscriber''"
    by (simp add: demo_app_def provider_bounce_def)
  show ?thesis using h r recorder_called_once_per_record [OF h, of "[]"] by simp
qed

text \<open>
  C3: on the SES path with the provider enabled (and the body read), a
  \<^verbatim>\<open>SubscriptionConfirmation\<close> or \<^verbatim>\<open>UnsubscribeConfirmation\<close> whose handshake
  succeeds produces and records no bounce record; a \<^verbatim>\<open>Notification\<close> whose envelope
  the adapter accepts produces exactly one record, which is recorded; any other
  message type fails with the invalid-data error and nothing is recorded.
\<close>

theorem ses_message_types:
  assumes "Body c = Inr rawReq" and "Param_service c = ''ses''" and "BounceSESEnabled app"
  shows
  "((Header_Get c ''X-Amz-Sns-Message-Type'' = ''SubscriptionConfirmation'' \<or>
     Header_Get c ''X-Amz-Sns-Message-Type'' = ''UnsubscribeConfirmation'') \<and>
    SES_ProcessSubscription app rawReq = None \<longrightarrow>
      fst (collectBounces app c now) = Inr [] \<and>
      handleBounceWebhook app c now s =
        (JSON 200 (Data_bool True), [SES_ProcessSubscription_call rawReq], s)) \<and>
   (Header_Get c ''X-Amz-Sns-Message-Type'' = ''Notification'' \<and>
    SES_ProcessBounce app rawReq = Inr b \<longrightarrow>
      fst (collectBounces app c now) = Inr [b] \<and>
      fst (handleBounceWebhook app c now s) = JSON 200 (Data_bool True) \<and>
      Record_calls (fst (snd (handleBounceWebhook app c now s))) = [b]) \<and>
   (Header_Get c ''X-Amz-Sns-Message-Type'' \<noteq> ''SubscriptionConfirmation'' \<and>
    Header_Get c ''X-Amz-Sns-Message-Type'' \<noteq> ''UnsubscribeConfirmation'' \<and>
    Header_Get c ''X-Amz-Sns-Message-Type'' \<noteq> ''Notification'' \<longrightarrow>
      handleBounceWebhook app c now s =
        (HTTPError 400 ''globals.messages.invalidData'', [], s))"
proof (intro conjI impI)
  assume a: "(Header_Get c ''X-Amz-Sns-Message-Type'' = ''SubscriptionConfirmation'' \<or>
     Header_Get c ''X-Amz-Sns-Message-Type'' = ''UnsubscribeConfirmation'') \<and>
    SES_ProcessSubscription app rawReq = None"
  have h: "collectBounces app c now = (Inr [], [SES_ProcessSubscription_call rawReq])"
    using assms a by (auto simp: collectBounces_def)
  show "fst (collectBounces app c now) = Inr []" using h by simp
  show "handleBounceWebhook app c now s =
        (JSON 200 (Data_bool True), [SES_ProcessSubscription_call rawReq], s)"
    using handle_Inr [OF h, of s] by simp
next
  assume a: "Header_Get c ''X-Amz-Sns-Message-Type'' = ''Notification'' \<and>
    SES_ProcessBounce app rawReq = Inr b"
  have h: "collectBounces app c now = (Inr [b], [SES_ProcessBounce_call rawReq])"
    using assms a by (simp add: collectBounces_def)
  show "fst (collectBounces app c now) = Inr [b]" using h by simp
  show "fst (handleBounceWebhook app c now s) = JSON 200 (Data_bool True)"
    using handle_Inr_calls(1) [OF h] .
  show "Record_calls (fst (snd (handleBounceWebhook app c now s))) = [b]"
    using handle_Inr_calls(2) [OF h] .
next
  assume a: "Header_Get c ''X-Amz-Sns-Message-Type'' \<noteq> ''SubscriptionConfirmation'' \<and>
    Header_Get c ''X-Amz-Sns-Message-Type'' \<noteq> ''UnsubscribeConfirmation'' \<and>
    Header_Get c ''X-Amz-Sns-Message-Type'' \<noteq> ''Notification''"
  have h: "collectBounces app c now = (Inl (HTTPError 400 ''globals.messages.invalidData''), [])"
    using assms a by (simp add: collectBounces_def)
  show "handleBounceWebhook app c now s = (HTTPError 400 ''globals.messages.invalidData'', [], s)"
    using handle_Inl [OF h, of s] .
qed

theorem ses_message_types_witness:
  "handleBounceWebhook demo_app
     (call ''ses'' ''confirm'' [(''X-Amz-Sns-Message-Type'', ''SubscriptionConfirmation'')]) now0 [] =
     (JSON 200 (Data_bool True), [SES_ProcessSubscription_call ''confirm''], []) \<and>
   fst (collectBounces demo_app
     (call ''ses'' ''notification'' [(''X-Amz-Sns-Message-Type'', ''Notification'')]) now0) =
     Inr [provider_bounce ''ses'' ''b@example.com''] \<and>
   Record_calls (fst (snd (handleBounceWebhook demo_app
     (call ''ses'' ''notification'' [(''X-Amz-Sns-Message-Type'', ''Notification'')]) now0 []))) =
     [provider_bounce ''ses'' ''b@example.com''] \<and>
   handleBounceWebhook demo_app
     (call ''ses'' ''notification'' [(''X-Amz-Sns-Message-Type'', ''Delivery'')]) now0 [] =
     (HTTPError 400 ''globals.messages.invalidData'', [], [])"
  using
    ses_message_types [where c = "call ''ses'' ''confirm''
        [(''X-Amz-Sns-Message-Type'', ''SubscriptionConfirmation'')]"
      and rawReq = "''confirm''" and app = demo_app and now = now0 and s = "[]"]
    ses_message_types [where c = "call ''ses'' ''notification''
        [(''X-Amz-Sns-Message-Type'', ''Notification'')]"
      and rawReq = "''notification''" and app = demo_app and now = now0 and s = "[]"
      and b = "provider_bounce ''ses'' ''b@example.com''"]
    ses_message_types [where c = "call ''ses'' ''notification''
        [(''X-Amz-Sns-Message-Type'', ''Delivery'')]"
      and rawReq = "''notification''" and app = demo_app and now = now0 and s = "[]"]
  by (simp add: demo_app_def call_def)

text \<open>
  C4: on the signed-webhook path with the provider enabled (and the body read), with
  the adapter the specification describes: when the signature does not verify against
  timestamp plus raw body, the call fails with the invalid-data error, whatever the
  payload is, and no record is recorded; when it verifies and the payload holds the
  events \<^verbatim>\<open>bs\<close>, exactly those records are handed to the Recorder, in payload order.
\<close>

theorem sendgrid_signature_checked:
  assumes "Body c = Inr rawReq" and "Param_service c = ''sendgrid''"
    and "BounceSendgridEnabled app"
    and "Sendgrid_ProcessBounce app = sendgrid_ProcessBounce verify events"
  shows
  "(\<not> verify (Header_Get c ''X-Twilio-Email-Event-Webhook-Signature'')
        (Header_Get c ''X-Twilio-Email-Event-Webhook-Timestamp'' @ rawReq) \<longrightarrow>
      fst (handleBounceWebhook app c now s) = HTTPError 400 ''globals.messages.invalidData'' \<and>
      Record_calls (fst (snd (handleBounceWebhook app c now s))) = [] \<and>
      snd (snd (handleBounceWebhook app c now s)) = s) \<and>
   (verify (Header_Get c ''X-Twilio-Email-Event-Webhook-Signature'')
        (Header_Get c ''X-Twilio-Email-Event-Webhook-Timestamp'' @ rawReq) \<and>
    events rawReq = Inr bs \<longrightarrow>
      fst (collectBounces app c now) = Inr bs \<and>
      fst (handleBounceWebhook app c now s) = JSON 200 (Data_bool True) \<and>
      Record_calls (fst (snd (handleBounceWebhook app c now s))) = bs)"
proof (intro conjI impI)
  let ?sig = "Header_Get c ''X-Twilio-Email-Event-Webhook-Signature''"
  let ?ts = "Header_Get c ''X-Twilio-Email-Event-Webhook-Timestamp''"
  assume a: "\<not> verify ?sig (?ts @ rawReq)"
  have h: "collectBounces app c now =
     (Inl (HTTPError 400 ''globals.messages.invalidData''),
      [Sendgrid_ProcessBounce_call ?sig ?ts rawReq,
       Log_Printf (''error processing sendgrid notification: '' @ ''invalid signature'')])"
    using assms a by (simp add: collectBounces_def sendgrid_ProcessBounce_def)
  show "fst (handleBounceWebhook app c now s) = HTTPError 400 ''globals.messages.invalidData''"
    using handle_Inl [OF h, of s] by simp
  show "Record_calls (fst (snd (handleBounceWebhook app c now s))) = []"
    using handle_Inl [OF h, of s] by simp
  show "snd (snd (handleBounceWebhook app c now s)) = s"
    using handle_Inl [OF h, of s] by simp
next
  let ?sig = "Header_Get c ''X-Twilio-Email-Event-Webhook-Signature''"
  let ?ts = "Header_Get c ''X-Twilio-Email-Event-Webhook-Timestamp''"
  assume a: "verify ?sig (?ts @ rawReq) \<and> events rawReq = Inr bs"
  have h: "collectBounces app c now = (Inr bs, [Sendgrid_ProcessBounce_call ?sig ?ts rawReq])"
    using assms a by (simp add: collectBounces_def sendgrid_ProcessBounce_def)
  show "fst (collectBounces app c now) = Inr bs" using h by simp
  show "fst (handleBounceWebhook app c now s) = JSON 200 (Data_bool True)"
    using handle_Inr_calls(1) [OF h] .
  show "Record_calls (fst (snd (handleBounceWebhook app c now s))) = bs"
    using handle_Inr_calls(2) [OF h] .
qed

theorem sendgrid_signature_checked_witness:
  "fst (handleBounceWebhook demo_app (sendgrid_call ''forged'') now0 []) =
     HTTPError 400 ''globals.messages.invalidData'' \<and>
   Record_calls (fst (snd (handleBounceWebhook demo_app (sendgrid_call ''forged'') now0 []))) = [] \<and>
   Record_calls (fst (snd (handleBounceWebhook demo_app (sendgrid_call ''stneve 342'') now0 []))) =
     sendgrid_events \<and>
   length sendgrid_events = 3"
  using
    sendgrid_signature_checked [where c = "sendgrid_call ''forged''"
      and rawReq = "''3 events''" and app = demo_app and verify = demo_verify
      and events = demo_events and now = now0 and s = "[]"]
    sendgrid_signature_checked [where c = "sendgrid_call ''stneve 342''"
      and rawReq = "''3 events''" and app = demo_app and verify = demo_verify
      and events = demo_events and now = now0 and s = "[]" and bs = sendgrid_events]
  by (simp add: demo_app_def sendgrid_call_def call_def demo_verify_def demo_events_def
      sendgrid_events_def)

text \<open>
  C5: a call (whose body was read) that names \<^verbatim>\<open>ses\<close> or \<^verbatim>\<open>sendgrid\<close> while
  that provider's flag is off fails with the unknown-service error, not with the
  invalid-data error; the handler has no effect: no adapter is called, nothing is
  recorded, nothing is logged.
\<close>

theorem disabled_provider_unknown_service:
  assumes "Body c = Inr rawReq"
    and "(Param_service c = ''ses'' \<and> \<not> BounceSESEnabled app) \<or>
         (Param_service c = ''sendgrid'' \<and> \<not> BounceSendgridEnabled app)"
  shows "handleBounceWebhook app c now s = (HTTPError 400 ''bounces.unknownService'', [], s) \<and>
         fst (handleBounceWebhook app c now s) \<noteq> HTTPError 400 ''globals.messages.invalidData''"
proof -
  have h: "collectBounces app c now = (Inl (HTTPError 400 ''bounces.unknownService''), [])"
    using assms by (auto simp: collectBounces_def)
  have "handleBounceWebhook app c now s = (HTTPError 400 ''bounces.unknownService'', [], s)"
    using handle_Inl [OF h, of s] .
  then show ?thesis by simp
qed

theorem disabled_provider_unknown_service_witness:
  "handleBounceWebhook (demo_app\<lparr>BounceSESEnabled := False\<rparr>)
     (call ''ses'' ''notification'' [(''X-Amz-Sns-Message-Type'', ''Notification'')]) now0 [] =
     (HTTPError 400 ''bounces.unknownService'', [], []) \<and>
   handleBounceWebhook (demo_app\<lparr>BounceSendgridEnabled := False\<rparr>)
     (sendgrid_call ''stneve 342'') now0 [] =
     (HTTPError 400 ''bounces.unknownService'', [], [])"
  using
    disabled_provider_unknown_service [where c = "call ''ses'' ''notification''
        [(''X-Amz-Sns-Message-Type'', ''Notification'')]"
      and rawReq = "''notification''" and app = "demo_app\<lparr>BounceSESEnabled := False\<rparr>"
      and now = now0 and s = "[]"]
    disabled_provider_unknown_service [where c = "sendgrid_call ''stneve 342''"
      and rawReq = "''3 events''" and app = "demo_app\<lparr>BounceSendgridEnabled := False\<rparr>"
      and now = now0 and s = "[]"]
  by (simp add: demo_app_def sendgrid_call_def call_def)

subsection \<open>The native path\<close>

text \<open>
  C8: for a native payload that passes validation and has no \<^verbatim>\<open>createdAt\<close> (the
  parsed field is the zero time, whose year is 1), the one record handed to the Recorder
  has the lowercased email and, when the payload has no \<^verbatim>\<open>meta\<close>, the empty JSON
  object as \<^verbatim>\<open>meta\<close>; but its \<^verbatim>\<open>createdAt\<close> is still the zero time and not the
  current time, because the handler tests \<^verbatim>\<open>Year() == 0\<close>.
\<close>

theorem native_createdAt_zero_time_kept:
  assumes "Body c = Inr rawReq" and "Param_service c = ''''"
    and "json_Unmarshal app rawReq = Some b" and "validateBounceFields b app = None"
    and "CreatedAt b = zeroTime"
  shows "map Email (Record_calls (fst (snd (handleBounceWebhook app c now s)))) =
           [strings_ToLower app (Email b)] \<and>
         (Meta b = '''' \<longrightarrow>
            map Meta (Record_calls (fst (snd (handleBounceWebhook app c now s)))) = [''{}'']) \<and>
         map CreatedAt (Record_calls (fst (snd (handleBounceWebhook app c now s)))) = [zeroTime]"
  using native_recorded [OF assms(1-4), of now s] assms(5) by (simp add: zeroTime_def)

theorem native_createdAt_zero_time_kept_witness:
  "map Email (Record_calls (fst (snd (handleBounceWebhook demo_app
       (call '''' payload_email []) now0 [])))) = [''user@example.com''] \<and>
   map Meta (Record_calls (fst (snd (handleBounceWebhook demo_app
       (call '''' payload_email []) now0 [])))) = [''{}''] \<and>
   map CreatedAt (Record_calls (fst (snd (handleBounceWebhook demo_app
       (call '''' payload_email []) now0 [])))) = [zeroTime] \<and>
   zeroTime \<noteq> now0"
proof -
  have v: "validateBounceFields bounce_email demo_app = None"
    by (simp add: validateBounceFields_def bounce_email_def demo_app_def IsEmail_spec_def)
  have u: "json_Unmarshal demo_app payload_email = Some bounce_email"
    by (simp add: demo_app_def demo_Unmarshal_def)
  have l: "strings_ToLower demo_app (Email bounce_email) = ''user@example.com''"
    by (simp add: demo_app_def bounce_email_def ToLower_ascii_def)
  show ?thesis
    using native_createdAt_zero_time_kept [where c = "call '''' payload_email []"
        and rawReq = payload_email and app = demo_app and b = bounce_email and now = now0
        and s = "[]", OF _ _ u v] l
    by (simp add: call_def bounce_email_def zeroTime_def now0_def)
qed

text \<open>
  C10: for a native payload that passes validation, the one record handed to the
  Recorder is the parsed record with \<^verbatim>\<open>email\<close> lowercased, \<^verbatim>\<open>meta\<close> set to the
  empty object when it is empty, and \<^verbatim>\<open>createdAt\<close> set to the current time when its
  year is 0; \<^verbatim>\<open>subscriberUUID\<close>, \<^verbatim>\<open>campaignID\<close>, \<^verbatim>\<open>type\<close> and \<^verbatim>\<open>source\<close>
  are those of the payload (the native path does not stamp \<^verbatim>\<open>source\<close>).
\<close>

theorem native_frame:
  assumes "Body c = Inr rawReq" and "Param_service c = ''''"
    and "json_Unmarshal app rawReq = Some b" and "validateBounceFields b app = None"
  shows "Record_calls (fst (snd (handleBounceWebhook app c now s))) =
           [b\<lparr>Email := strings_ToLower app (Email b),
              Meta := (if length (Meta b) = 0 then ''{}'' else Meta b),
              CreatedAt := (if Year (CreatedAt b) = 0 then now else CreatedAt b)\<rparr>] \<and>
         map SubscriberUUID (Record_calls (fst (snd (handleBounceWebhook app c now s)))) =
           [SubscriberUUID b] \<and>
         map CampaignID (Record_calls (fst (snd (handleBounceWebhook app c now s)))) =
           [CampaignID b] \<and>
         map Type (Record_calls (fst (snd (handleBounceWebhook app c now s)))) = [Type b] \<and>
         map Source (Record_calls (fst (snd (handleBounceWebhook app c now s)))) = [Source b]"
  using native_recorded [OF assms, of now s] by simp

theorem native_frame_witness:
  "Record_calls (fst (snd (handleBounceWebhook demo_app (call '''' payload_year0 []) now0 []))) =
     [bounce_year0\<lparr>CreatedAt := now0\<rparr>] \<and>
   map Source (Record_calls (fst (snd (handleBounceWebhook demo_app
       (call '''' payload_year0 []) now0 [])))) = [''api'']"
proof -
  have v: "validateBounceFields bounce_year0 demo_app = None"
    by (simp add: validateBounceFields_def bounce_year0_def demo_app_def reUUID_spec_def
        isHexLower_def)
  have u: "json_Unmarshal demo_app payload_year0 = Some bounce_year0"
    by (simp add: demo_app_def demo_Unmarshal_def payload_year0_def payload_email_def
        payload_both_def)
  have l: "strings_ToLower demo_app (Email bounce_year0) = ''''"
    by (simp add: demo_app_def bounce_year0_def ToLower_ascii_def)
  show ?thesis
    using native_frame [where c = "call '''' payload_year0 []" and rawReq = payload_year0
        and app = demo_app and b = bounce_year0 and now = now0 and s = "[]", OF _ _ u v] l
    by (simp add: call_def bounce_year0_def)
qed

subsection \<open>Deletion\<close>

text \<open>
  C6, as the claim states it, fails: with no path id and \<^verbatim>\<open>all=true\<close>, an
  unparseable query id does not fail as invalid-id; the query ids are not looked at and
  the statement is run with the empty id array.
\<close>

theorem delete_modes_counterexample:
  "parseStringIDs [''abc''] = Inl ''invalid syntax'' \<and>
   handleDeleteBounces demo_DeleteEnv
     \<lparr>Param_id = '''', QueryParam_all = ''true'', Query_id = [''abc'']\<rparr> =
     (JSON 200 (Data_bool True), [DeleteBounces_Exec_call []])"
  by (simp add: handleDeleteBounces_def deleteIDs_def demo_DeleteEnv_def strconv_ParseBool_def
      strconv_ParseInt_def isDigit_def)

text \<open>
  C6, amended: the modes are resolved in the order path id, all-flag, explicit ids.
  A non-empty path id that is not a decimal integer, or is below 1, fails as
  invalid-id, and one that parses without error as an \<^verbatim>\<open>int64\<close> of at least 1 is
  the id array. With no path id and
  \<^verbatim>\<open>all\<close> true, the statement is run with the empty id array, whatever the query ids
  are. With no path id and \<^verbatim>\<open>all\<close> false, query ids of which one is unparseable or
  non-positive fail as invalid-id, an empty id set fails as invalid-id, and a non-empty
  parsed id set is the id array.
\<close>

theorem delete_modes:
  "(Param_id c \<noteq> '''' \<and>
      (snd (strconv_ParseInt (Param_id c)) = Some ''invalid syntax'' \<or>
       fst (strconv_ParseInt (Param_id c)) < 1) \<longrightarrow>
      handleDeleteBounces env c = (HTTPError 400 ''globals.messages.invalidID'', [])) \<and>
   (Param_id c \<noteq> '''' \<and> snd (strconv_ParseInt (Param_id c)) = None \<and>
    1 \<le> fst (strconv_ParseInt (Param_id c)) \<longrightarrow>
      take 1 (snd (handleDeleteBounces env c)) =
        [DeleteBounces_Exec_call [fst (strconv_ParseInt (Param_id c))]]) \<and>
   (Param_id c = '''' \<and> fst (strconv_ParseBool (QueryParam_all c)) \<longrightarrow>
      take 1 (snd (handleDeleteBounces env c)) = [DeleteBounces_Exec_call []]) \<and>
   (Param_id c = '''' \<and> \<not> fst (strconv_ParseBool (QueryParam_all c)) \<and>
    parseStringIDs_of env = parseStringIDs \<and>
    (\<exists>v \<in> set (Query_id c).
       snd (strconv_ParseInt v) \<noteq> None \<or> fst (strconv_ParseInt v) < 1) \<longrightarrow>
      handleDeleteBounces env c = (HTTPError 400 ''globals.messages.invalidID'', [])) \<and>
   (Param_id c = '''' \<and> \<not> fst (strconv_ParseBool (QueryParam_all c)) \<and>
    parseStringIDs_of env (Query_id c) = Inr [] \<longrightarrow>
      handleDeleteBounces env c = (HTTPError 400 ''globals.messages.invalidID'', [])) \<and>
   (Param_id c = '''' \<and> \<not> fst (strconv_ParseBool (QueryParam_all c)) \<and>
    parseStringIDs_of env (Query_id c) = Inr IDs \<and> IDs \<noteq> [] \<longrightarrow>
      take 1 (snd (handleDeleteBounces env c)) = [DeleteBounces_Exec_call IDs])"
proof (intro conjI impI)
  assume a: "Param_id c \<noteq> '''' \<and>
      (snd (strconv_ParseInt (Param_id c)) = Some ''invalid syntax'' \<or>
       fst (strconv_ParseInt (Param_id c)) < 1)"
  then have "fst (strconv_ParseInt (Param_id c)) < 1"
    using ParseInt_syntax_zero [of "Param_id c"] by auto
  then have "deleteIDs env c = Inl (HTTPError 400 ''globals.messages.invalidID'')"
    using a by (simp add: deleteIDs_def)
  then show "handleDeleteBounces env c = (HTTPError 400 ''globals.messages.invalidID'', [])"
    by (rule handleDelete_Inl)
next
  assume a: "Param_id c \<noteq> '''' \<and> snd (strconv_ParseInt (Param_id c)) = None \<and>
    1 \<le> fst (strconv_ParseInt (Param_id c))"
  then have "deleteIDs env c = Inr [fst (strconv_ParseInt (Param_id c))]"
    by (simp add: deleteIDs_def)
  then show "take 1 (snd (handleDeleteBounces env c)) =
        [DeleteBounces_Exec_call [fst (strconv_ParseInt (Param_id c))]]"
    by (rule handleDelete_Inr)
next
  assume a: "Param_id c = '''' \<and> fst (strconv_ParseBool (QueryParam_all c))"
  then have "deleteIDs env c = Inr []"
    by (simp add: deleteIDs_def)
  then show "take 1 (snd (handleDeleteBounces env c)) = [DeleteBounces_Exec_call []]"
    by (rule handleDelete_Inr)
next
  assume a: "Param_id c = '''' \<and> \<not> fst (strconv_ParseBool (QueryParam_all c)) \<and>
    parseStringIDs_of env = parseStringIDs \<and>
    (\<exists>v \<in> set (Query_id c).
       snd (strconv_ParseInt v) \<noteq> None \<or> fst (strconv_ParseInt v) < 1)"
  then obtain err where "parseStringIDs (Query_id c) = Inl err"
    using parseStringIDs_rejects [of "Query_id c"] by blast
  then have "deleteIDs env c = Inl (HTTPError 400 ''globals.messages.invalidID'')"
    using a by (simp add: deleteIDs_def)
  then show "handleDeleteBounces env c = (HTTPError 400 ''globals.messages.invalidID'', [])"
    by (rule handleDelete_Inl)
next
  assume a: "Param_id c = '''' \<and> \<not> fst (strconv_ParseBool (QueryParam_all c)) \<and>
    parseStringIDs_of env (Query_id c) = Inr []"
  then have "deleteIDs env c = Inl (HTTPError 400 ''globals.messages.invalidID'')"
    by (simp add: deleteIDs_def)
  then show "handleDeleteBounces env c = (HTTPError 400 ''globals.messages.invalidID'', [])"
    by (rule handleDelete_Inl)
next
  assume a: "Param_id c = '''' \<and> \<not> fst (strconv_ParseBool (QueryParam_all c)) \<and>
    parseStringIDs_of env (Query_id c) = Inr IDs \<and> IDs \<noteq> []"
  then have "deleteIDs env c = Inr IDs"
    by (simp add: deleteIDs_def)
  then show "take 1 (snd (handleDeleteBounces env c)) = [DeleteBounces_Exec_call IDs]"
    by (rule handleDelete_Inr)
qed

theorem delete_modes_witness:
  "handleDeleteBounces demo_DeleteEnv
     \<lparr>Param_id = ''abc'', QueryParam_all = ''true'', Query_id = [''7'']\<rparr> =
     (HTTPError 400 ''globals.messages.invalidID'', []) \<and>
   handleDeleteBounces demo_DeleteEnv
     \<lparr>Param_id = ''0'', QueryParam_all = '''', Query_id = []\<rparr> =
     (HTTPError 400 ''globals.messages.invalidID'', []) \<and>
   take 1 (snd (handleDeleteBounces demo_DeleteEnv
     \<lparr>Param_id = ''7'', QueryParam_all = ''true'', Query_id = [''12'']\<rparr>)) =
     [DeleteBounces_Exec_call [7]] \<and>
   take 1 (snd (handleDeleteBounces demo_DeleteEnv
     \<lparr>Param_id = '''', QueryParam_all = ''true'', Query_id = []\<rparr>)) =
     [DeleteBounces_Exec_call []] \<and>
   handleDeleteBounces demo_DeleteEnv
     \<lparr>Param_id = '''', QueryParam_all = ''false'', Query_id = [''7'', ''-3'']\<rparr> =
     (HTTPError 400 ''globals.messages.invalidID'', []) \<and>
   handleDeleteBounces demo_DeleteEnv
     \<lparr>Param_id = '''', QueryParam_all = '''', Query_id = []\<rparr> =
     (HTTPError 400 ''globals.messages.invalidID'', []) \<and>
   take 1 (snd (handleDeleteBounces demo_DeleteEnv
     \<lparr>Param_id = '''', QueryParam_all = '''', Query_id = [''7'', ''12'']\<rparr>)) =
     [DeleteBounces_Exec_call [7, 12]]"
  using
    delete_modes [where env = demo_DeleteEnv
      and c = "\<lparr>Param_id = ''abc'', QueryParam_all = ''true'', Query_id = [''7'']\<rparr>"]
    delete_modes [where env = demo_DeleteEnv
      and c = "\<lparr>Param_id = ''0'', QueryParam_all = '''', Query_id = []\<rparr>"]
    delete_modes [where env = demo_DeleteEnv
      and c = "\<lparr>Param_id = ''7'', QueryParam_all = ''true'', Query_id = [''12'']\<rparr>"]
    delete_modes [where env = demo_DeleteEnv
      and c = "\<lparr>Param_id = '''', QueryParam_all = ''true'', Query_id = []\<rparr>"]
    delete_modes [where env = demo_DeleteEnv
      and c = "\<lparr>Param_id = '''', QueryParam_all = ''false'', Query_id = [''7'', ''-3'']\<rparr>"]
    delete_modes [where env = demo_DeleteEnv
      and c = "\<lparr>Param_id = '''', QueryParam_all = '''', Query_id = []\<rparr>"]
    delete_modes [where env = demo_DeleteEnv
      and c = "\<lparr>Param_id = '''', QueryParam_all = '''', Query_id = [''7'', ''12'']\<rparr>"
      and IDs = "[7, 12]"]
  by (simp add: demo_DeleteEnv_def strconv_ParseBool_def ParseInt_abc ParseInt_0
      ParseInt_minus_3 ParseInt_7 ParseInt_12)

text \<open>
  A path id beyond \<^verbatim>\<open>int64\<close> is not rejected: \<^verbatim>\<open>ParseInt\<close> reports a range error,
  which the handler drops, together with the largest \<^verbatim>\<open>int64\<close>, which the handler
  takes as the id.
\<close>

lemma path_id_out_of_range_is_taken:
  "handleDeleteBounces demo_DeleteEnv
     \<lparr>Param_id = ''99999999999999999999'', QueryParam_all = '''', Query_id = []\<rparr> =
     (JSON 200 (Data_bool True), [DeleteBounces_Exec_call [9223372036854775807]])"
  by (simp add: handleDeleteBounces_def deleteIDs_def demo_DeleteEnv_def ParseInt_out_of_range)

subsection \<open>Listing\<close>

text \<open>
  C9: every list request runs the query. The field spliced into it is the requested
  \<^verbatim>\<open>order_by\<close> when that is in the allow-list and \<^verbatim>\<open>created_at\<close> otherwise; the
  direction is the requested \<^verbatim>\<open>order\<close> when that is \<^verbatim>\<open>sortAsc\<close> or
  \<^verbatim>\<open>sortDesc\<close> and \<^verbatim>\<open>sortDesc\<close> otherwise. So the spliced field is allow-listed
  or \<^verbatim>\<open>created_at\<close>, and always allow-listed when the allow-list holds
  \<^verbatim>\<open>created_at\<close>.
\<close>

theorem list_sort_fallback:
  "\<exists>orderBy order args.
     take 1 (snd (handleGetBounces env c)) = [db_Select_call orderBy order args] \<and>
     (FormValue_order_by c \<notin> set (bounceQuerySortFields env) \<longrightarrow> orderBy = ''created_at'') \<and>
     (FormValue_order_by c \<in> set (bounceQuerySortFields env) \<longrightarrow> orderBy = FormValue_order_by c) \<and>
     (FormValue_order c \<noteq> sortAsc env \<and> FormValue_order c \<noteq> sortDesc env \<longrightarrow>
        order = sortDesc env) \<and>
     (FormValue_order c = sortAsc env \<or> FormValue_order c = sortDesc env \<longrightarrow>
        order = FormValue_order c) \<and>
     (orderBy \<in> set (bounceQuerySortFields env) \<or> orderBy = ''created_at'') \<and>
     (''created_at'' \<in> set (bounceQuerySortFields env) \<longrightarrow>
        orderBy \<in> set (bounceQuerySortFields env))"
  using handleGet_select [of env c] by (auto simp: strSliceContains_set)

theorem list_sort_fallback_witness:
  "(\<exists>args. take 1 (snd (handleGetBounces demo_QueryEnv
       (list_call ''id; DROP TABLE bounces'' ''sideways''))) =
     [db_Select_call ''created_at'' ''desc'' args]) \<and>
   (\<exists>args. take 1 (snd (handleGetBounces demo_QueryEnv (list_call ''email'' ''asc''))) =
     [db_Select_call ''email'' ''asc'' args]) \<and>
   ''created_at'' \<in> set (bounceQuerySortFields demo_QueryEnv)"
  using
    list_sort_fallback [of demo_QueryEnv "list_call ''id; DROP TABLE bounces'' ''sideways''"]
    list_sort_fallback [of demo_QueryEnv "list_call ''email'' ''asc''"]
  by (auto simp: demo_QueryEnv_def list_call_def)

end
